theory Spec2Isabelle
  imports
    Complex_Main
    "HOL-Library.Char_ord"
    "HOL-Library.List_Lexorder"
    "HOL-Library.Product_Lexorder"
begin

section \<open>The dashboard data (types.ts)\<close>

text \<open>
  The interfaces of \<^verbatim>\<open>types.ts\<close>, as the client receives them from
  \<^verbatim>\<open>GET /api/dashboard\<close>. A JavaScript \<^verbatim>\<open>number\<close> is modelled as a real
  number: rounding errors of IEEE doubles, NaN and the infinities are outside the model.
  \<^verbatim>\<open>training_done\<close> is a number (0 or 1), as the interface declares it. Field names
  carry a prefix where two interfaces share a name.
\<close>

record BodyLog =
  b_id :: nat
  b_date :: string
  sleep_hours :: real
  sleep_quality :: real
  training_done :: real
  training_type :: string
  energy_level :: real
  activity_level :: real

record MindLog =
  m_id :: nat
  m_date :: string
  mood :: real
  anxiety :: real
  stress :: real
  focus :: real
  journal :: string

record FinanceLog =
  f_id :: nat
  f_date :: string
  income :: real
  expenses :: real
  debts :: real
  installments :: real

record DisciplineDay =
  d_date :: string
  total_minutes :: real
  avg_focus :: real

record DashboardData =
  body :: "BodyLog list"
  mind :: "MindLog list"
  finance :: "FinanceLog list"
  discipline :: "DisciplineDay list"

section \<open>The helpers of lib/utils\<close>

text \<open>
  Modelled from the spec: \<^verbatim>\<open>calculateScore\<close> of \<^verbatim>\<open>src/lib/utils\<close>, which
  \<^verbatim>\<open>App.tsx\<close> imports and whose source is missing. The spec (4.2) describes it as
  \<^verbatim>\<open>normalize5to100(x)\<close>: the linear map \<^verbatim>\<open>round(x / 5 * 100)\<close>, clamped to [0,100].
\<close>

definition calculateScore :: "real \<Rightarrow> real" where
  "calculateScore x = real_of_int (max 0 (min 100 (round (x / 5 * 100))))"

text \<open>
  Modelled from the spec: \<^verbatim>\<open>getCorrelation\<close> of \<^verbatim>\<open>src/lib/utils\<close>, which
  \<^verbatim>\<open>App.tsx\<close> imports and whose source is missing. The spec (4.3) calls it
  \<^verbatim>\<open>pearson(seriesA, seriesB) -> float | undefined\<close>: the standard formula
  \<^verbatim>\<open>covariance(A,B) / (stdev(A) * stdev(B))\<close> over positionally paired series of
  equal length, undefined when either series has zero variance. \<open>None\<close> is the
  undefined result. The spec requires equal lengths and says nothing of what happens
  otherwise; the model returns \<open>None\<close> there, and for empty series.
\<close>

definition mean :: "real list \<Rightarrow> real" where
  "mean xs = sum_list xs / real (length xs)"

definition covariance :: "real list \<Rightarrow> real list \<Rightarrow> real" where
  "covariance xs ys =
     (\<Sum>(x, y) \<leftarrow> zip xs ys. (x - mean xs) * (y - mean ys)) / real (length xs)"

definition variance :: "real list \<Rightarrow> real" where
  "variance xs = covariance xs xs"

definition stdev :: "real list \<Rightarrow> real" where
  "stdev xs = sqrt (variance xs)"

definition pearson :: "real list \<Rightarrow> real list \<Rightarrow> real option" where
  "pearson xs ys =
     (if length xs = length ys \<and> xs \<noteq> [] \<and> variance xs \<noteq> 0 \<and> variance ys \<noteq> 0
      then Some (covariance xs ys / (stdev xs * stdev ys))
      else None)"

section \<open>DashboardView (App.tsx)\<close>

text \<open>
  The two imported helpers are parameters of the model (\<open>calcScore\<close> and \<open>getCorr\<close>), so
  that what is proved of the view holds for every implementation of them. A correlation
  of \<open>None\<close> stands for \<^verbatim>\<open>undefined\<close> or \<^verbatim>\<open>NaN\<close>: every comparison with it is
  false in JavaScript, also after \<^verbatim>\<open>Math.abs\<close>.
\<close>

definition bodyScore :: "(real \<Rightarrow> real) \<Rightarrow> DashboardData \<Rightarrow> real" where
  "bodyScore calcScore data =
     (case body data of
        [] \<Rightarrow> 0
      | latestBody # _ \<Rightarrow>
          calcScore ((sleep_quality latestBody + energy_level latestBody
                      + (if training_done latestBody \<noteq> 0 then 5 else 0)) / 3))"

definition mindScore :: "(real \<Rightarrow> real) \<Rightarrow> DashboardData \<Rightarrow> real" where
  "mindScore calcScore data =
     (case mind data of
        [] \<Rightarrow> 0
      | latestMind # _ \<Rightarrow>
          calcScore ((mood latestMind + (6 - anxiety latestMind)
                      + (6 - stress latestMind) + focus latestMind) / 4))"

text \<open>\<^verbatim>\<open>latestFinance.income || 1\<close>: the income unless it is falsy, that is 0.\<close>

definition financialPressure :: "DashboardData \<Rightarrow> int" where
  "financialPressure data =
     (case finance data of
        [] \<Rightarrow> 0
      | latestFinance # _ \<Rightarrow>
          min 100 (round (debts latestFinance
                          / (if income latestFinance \<noteq> 0 then income latestFinance else 1)
                          * 100)))"

definition financeScore :: "DashboardData \<Rightarrow> int" where
  "financeScore data = 100 - financialPressure data"

definition disciplineScore :: "DashboardData \<Rightarrow> int" where
  "disciplineScore data =
     (case discipline data of
        [] \<Rightarrow> 0
      | d # _ \<Rightarrow> min 100 (round (total_minutes d / 2.4)))"

definition overallScore :: "(real \<Rightarrow> real) \<Rightarrow> DashboardData \<Rightarrow> int" where
  "overallScore calcScore data =
     round ((bodyScore calcScore data + mindScore calcScore data
             + real_of_int (financeScore data) + real_of_int (disciplineScore data)) / 4)"

definition hasData :: "DashboardData \<Rightarrow> bool" where
  "hasData data \<longleftrightarrow>
     length (body data) > 0 \<or> length (mind data) > 0
     \<or> length (finance data) > 0 \<or> length (discipline data) > 0"

subsection \<open>Insights\<close>

datatype polarity = Positive | Negative

record insight =
  insight_title :: string
  insight_text :: string
  insight_type :: polarity

text \<open>
  The decimal rendering of an integer, as a template literal prints \<^verbatim>\<open>Math.round(..)\<close>
  (for magnitudes below \<open>10^21\<close>, where JavaScript switches to exponent notation).
\<close>

definition digit :: "nat \<Rightarrow> char" where
  "digit n = ''0123456789'' ! n"

fun show_nat :: "nat \<Rightarrow> string" where
  "show_nat n =
     (if n < 10 then [digit n]
      else show_nat (n div 10) @ [digit (n mod 10)])"

definition show_int :: "int \<Rightarrow> string" where
  "show_int i = (if i < 0 then CHR ''-'' # show_nat (nat (- i)) else show_nat (nat i))"

text \<open>
  The Portuguese texts of the source. A letter outside ASCII is one character, its
  Unicode code point (all are below 256): a-tilde 0xE3, a-acute 0xE1, c-cedilla 0xE7,
  i-acute 0xED.
\<close>

definition focus_title :: string where
  "focus_title = ''Padr'' @ [CHR 0xE3] @ ''o de Foco Detectado''"

definition focus_text :: "int \<Rightarrow> string" where
  "focus_text pct =
     ''Sua qualidade de sono tem uma correla'' @ [CHR 0xE7, CHR 0xE3]
     @ ''o de '' @ show_int pct @ ''% com seu n'' @ [CHR 0xED]
     @ ''vel de foco di'' @ [CHR 0xE1] @ ''rio.''"

definition debt_title :: string where
  "debt_title = ''Press'' @ [CHR 0xE3] @ ''o Financeira''"

definition debt_text :: string where
  "debt_text =
     ''Detectamos que aumentos em suas d'' @ [CHR 0xED] @ ''vidas est'' @ [CHR 0xE3]
     @ ''o diretamente ligados ao seu n'' @ [CHR 0xED] @ ''vel de ansiedade.''"

text \<open>
  The first \<^verbatim>\<open>if\<close> block of the correlation analysis. Its guard reads the lengths
  of \<^verbatim>\<open>data.body\<close> and \<^verbatim>\<open>data.discipline\<close>; the series are taken from
  \<^verbatim>\<open>data.body\<close> and \<^verbatim>\<open>data.mind\<close>.
\<close>

definition sleepFocusInsight ::
  "(real list \<Rightarrow> real list \<Rightarrow> real option) \<Rightarrow> DashboardData \<Rightarrow> insight list" where
  "sleepFocusInsight getCorr data =
     (if length (body data) > 5 \<and> length (discipline data) > 5 then
        (case getCorr (map sleep_hours (body data)) (map focus (mind data)) of
           None \<Rightarrow> []
         | Some corr \<Rightarrow>
             if \<bar>corr\<bar> > 0.4 then
               [\<lparr>insight_title = focus_title,
                 insight_text = focus_text (round (corr * 100)),
                 insight_type = (if corr > 0 then Positive else Negative)\<rparr>]
             else [])
      else [])"

text \<open>The second \<^verbatim>\<open>if\<close> block.\<close>

definition debtAnxietyInsight ::
  "(real list \<Rightarrow> real list \<Rightarrow> real option) \<Rightarrow> DashboardData \<Rightarrow> insight list" where
  "debtAnxietyInsight getCorr data =
     (if length (finance data) > 5 \<and> length (mind data) > 5 then
        (case getCorr (map debts (finance data)) (map anxiety (mind data)) of
           None \<Rightarrow> []
         | Some corr \<Rightarrow>
             if corr > 0.3 then
               [\<lparr>insight_title = debt_title,
                 insight_text = debt_text,
                 insight_type = Negative\<rparr>]
             else [])
      else [])"

definition insights ::
  "(real list \<Rightarrow> real list \<Rightarrow> real option) \<Rightarrow> DashboardData \<Rightarrow> insight list" where
  "insights getCorr data = sleepFocusInsight getCorr data @ debtAnxietyInsight getCorr data"

subsection \<open>The view\<close>

text \<open>
  What \<^verbatim>\<open>DashboardView\<close> renders: the spinner while the data is \<^verbatim>\<open>null\<close>, the
  placeholder (\<^verbatim>\<open>Nenhum dado detectado\<close>) when no list has an entry, and otherwise the
  dashboard with its five scores and its insights.
\<close>

record scores =
  score_body :: real
  score_mind :: real
  score_finance :: int
  score_discipline :: int
  score_overall :: int

datatype view = Loading | NoData | Dashboard scores "insight list"

definition DashboardView ::
  "(real \<Rightarrow> real) \<Rightarrow> (real list \<Rightarrow> real list \<Rightarrow> real option)
     \<Rightarrow> DashboardData option \<Rightarrow> view" where
  "DashboardView calcScore getCorr data_opt =
     (case data_opt of
        None \<Rightarrow> Loading
      | Some data \<Rightarrow>
          if \<not> hasData data then NoData
          else Dashboard
                 \<lparr>score_body = bodyScore calcScore data,
                  score_mind = mindScore calcScore data,
                  score_finance = financeScore data,
                  score_discipline = disciplineScore data,
                  score_overall = overallScore calcScore data\<rparr>
                 (insights getCorr data))"

section \<open>The server: tables and routes\<close>

subsection \<open>Request bodies and SQLite values\<close>





text \<open>
  A stored value. The tables of the schema hold NULL, numbers and text; SQLite has no
  boolean. Numbers are reals, as on the client.
\<close>

datatype sqlval = SqlNull | SqlNum real | SqlText string





subsection \<open>Tables\<close>

text \<open>
  A table is its rows in insertion order and the counter of
  \<^verbatim>\<open>INTEGER PRIMARY KEY AUTOINCREMENT\<close>: the largest id handed out so far. SQLite's
  column affinity (a numeric-looking string stored in a numeric column becomes a
  number, a number stored in the TEXT column \<^verbatim>\<open>date\<close> becomes text) is not modelled:
  a bound value is stored as it is, which is exact for numbers in numeric columns, for
  strings in text columns and for strings that are no numeric literal.
\<close>

record 'r table =
  rows :: "'r list"
  seq :: nat




fun update_first :: "('r \<Rightarrow> bool) \<Rightarrow> ('r \<Rightarrow> 'r) \<Rightarrow> 'r list \<Rightarrow> 'r list" where
  "update_first conflict do_update [] = []"
| "update_first conflict do_update (r # rs) =
     (if conflict r then do_update r # rs else r # update_first conflict do_update rs)"


text \<open>
  \<^verbatim>\<open>ORDER BY col DESC\<close>. SQLite orders NULL before numbers before text, numbers by
  value and text bytewise; rows with equal keys come in an order SQL leaves open.
\<close>

fun sql_key :: "sqlval \<Rightarrow> nat \<times> real \<times> string" where
  "sql_key SqlNull = (0, 0, [])"
| "sql_key (SqlNum x) = (1, x, [])"
| "sql_key (SqlText s) = (2, 0, s)"

definition order_by_desc :: "('r \<Rightarrow> sqlval) \<Rightarrow> 'r list \<Rightarrow> 'r list" where
  "order_by_desc col rs = rev (sort_key (\<lambda>r. sql_key (col r)) rs)"

record body_row =
  bl_id :: nat
  bl_date :: sqlval
  bl_sleep_hours :: sqlval
  bl_sleep_quality :: sqlval
  bl_training_done :: sqlval
  bl_training_type :: sqlval
  bl_energy_level :: sqlval
  bl_activity_level :: sqlval

record mind_row =
  ml_id :: nat
  ml_date :: sqlval
  ml_mood :: sqlval
  ml_anxiety :: sqlval
  ml_stress :: sqlval
  ml_focus :: sqlval
  ml_journal :: sqlval

record finance_row =
  fl_id :: nat
  fl_date :: sqlval
  fl_income :: sqlval
  fl_expenses :: sqlval
  fl_debts :: sqlval
  fl_installments :: sqlval

record project_row =
  pr_id :: nat
  pr_name :: sqlval
  pr_weekly_goal_hours :: sqlval
  pr_created_at :: sqlval

record discipline_row =
  dl_id :: nat
  dl_date :: sqlval
  dl_project_id :: sqlval
  dl_minutes_invested :: sqlval
  dl_focus_level :: sqlval

text \<open>
  The database. The table \<^verbatim>\<open>mental_inbox\<close> and its routes are left out: they touch
  no other table.
\<close>

record store =
  body_logs :: "body_row table"
  mind_logs :: "mind_row table"
  finance_logs :: "finance_row table"
  projects :: "project_row table"
  discipline_logs :: "discipline_row table"


subsection \<open>The write routes\<close>

text \<open>
  Each route prepares one statement and runs it on the properties of the request
  body. The statement is a function of its bound values \<open>ps\<close>.
\<close>
















subsection \<open>The read routes of the log tables\<close>


definition get_mind :: "store \<Rightarrow> mind_row list" where
  "get_mind db = take 30 (order_by_desc ml_date (rows (mind_logs db)))"

definition get_finance :: "store \<Rightarrow> finance_row list" where
  "get_finance db = take 30 (order_by_desc fl_date (rows (finance_logs db)))"

subsection \<open>Runs of the server\<close>





section \<open>Invariants of the database\<close>







section \<open>Example data\<close>

text \<open>
  Concrete logs, datasets, request bodies and databases at which the theorems below
  are evaluated. Lists of logs are most recent first, as the server sends them.
\<close>

subsection \<open>Dashboard datasets\<close>

definition example_body :: "nat \<Rightarrow> string \<Rightarrow> real \<Rightarrow> BodyLog" where
  "example_body i d h =
     \<lparr>b_id = i, b_date = d, sleep_hours = h, sleep_quality = 3, training_done = 0,
      training_type = [], energy_level = 3, activity_level = 3\<rparr>"

definition example_mind :: "nat \<Rightarrow> string \<Rightarrow> real \<Rightarrow> real \<Rightarrow> MindLog" where
  "example_mind i d a f =
     \<lparr>m_id = i, m_date = d, mood = 3, anxiety = a, stress = 3, focus = f, journal = []\<rparr>"

definition example_finance :: "nat \<Rightarrow> string \<Rightarrow> real \<Rightarrow> real \<Rightarrow> FinanceLog" where
  "example_finance i d inc deb =
     \<lparr>f_id = i, f_date = d, income = inc, expenses = 0, debts = deb, installments = 0\<rparr>"

definition six_days :: DashboardData where
  "six_days =
     \<lparr>body = [example_body 6 ''2024-01-06'' 10, example_body 5 ''2024-01-05'' 9,
              example_body 4 ''2024-01-04'' 8, example_body 3 ''2024-01-03'' 7,
              example_body 2 ''2024-01-02'' 6, example_body 1 ''2024-01-01'' 5],
      mind = [example_mind 6 ''2024-01-06'' 3 5, example_mind 5 ''2024-01-05'' 3 5,
              example_mind 4 ''2024-01-04'' 3 4, example_mind 3 ''2024-01-03'' 3 3,
              example_mind 2 ''2024-01-02'' 3 2, example_mind 1 ''2024-01-01'' 3 1],
      finance = [],
      discipline = []\<rparr>"

definition debt_days :: DashboardData where
  "debt_days =
     \<lparr>body = [],
      mind = [example_mind 6 ''2024-01-06'' 5 3, example_mind 5 ''2024-01-05'' 5 3,
              example_mind 4 ''2024-01-04'' 4 3, example_mind 3 ''2024-01-03'' 3 3,
              example_mind 2 ''2024-01-02'' 2 3, example_mind 1 ''2024-01-01'' 1 3],
      finance = [example_finance 6 ''2024-01-06'' 3000 600, example_finance 5 ''2024-01-05'' 3000 500,
                 example_finance 4 ''2024-01-04'' 3000 400, example_finance 3 ''2024-01-03'' 3000 300,
                 example_finance 2 ''2024-01-02'' 3000 200, example_finance 1 ''2024-01-01'' 3000 100],
      discipline = []\<rparr>"



definition minutes_day :: "real \<Rightarrow> DashboardData" where
  "minutes_day t = \<lparr>body = [], mind = [], finance = [], discipline = [\<lparr>d_date = ''2024-01-01'', total_minutes = t, avg_focus = 3\<rparr>]\<rparr>"

definition no_logs :: DashboardData where
  "no_logs = \<lparr>body = [], mind = [], finance = [], discipline = []\<rparr>"

subsection \<open>Request bodies, rows and databases\<close>




























section \<open>The correlation stays within [-1, 1]\<close>

text \<open>
  The Cauchy-Schwarz inequality for sums over a list, by expanding
  \<open>\<Sum> (B * F p - C * G p)\<^sup>2 \<ge> 0\<close> with \<open>B = \<Sum> G\<^sup>2\<close> and \<open>C = \<Sum> F * G\<close>.
\<close>

lemma sum_sq_expand:
  fixes F G :: "'a \<Rightarrow> real"
  shows "(\<Sum>p\<leftarrow>z. (b * F p - c * G p) * (b * F p - c * G p))
         = b * b * (\<Sum>p\<leftarrow>z. F p * F p) - 2 * b * c * (\<Sum>p\<leftarrow>z. F p * G p)
           + c * c * (\<Sum>p\<leftarrow>z. G p * G p)"
  by (induction z) (simp_all add: algebra_simps)

lemma sum_sq_nonneg:
  fixes F :: "'a \<Rightarrow> real"
  shows "0 \<le> (\<Sum>p\<leftarrow>z. F p * F p)"
  by (induction z) simp_all

lemma sum_sq_zero_cross:
  fixes F G :: "'a \<Rightarrow> real"
  shows "(\<Sum>p\<leftarrow>z. G p * G p) = 0 \<Longrightarrow> (\<Sum>p\<leftarrow>z. F p * G p) = 0"
proof (induction z)
  case Nil
  then show ?case by simp
next
  case (Cons p z)
  have a: "0 \<le> G p * G p" by simp
  have b: "0 \<le> (\<Sum>q\<leftarrow>z. G q * G q)" by (rule sum_sq_nonneg)
  from Cons.prems have "G p * G p + (\<Sum>q\<leftarrow>z. G q * G q) = 0" by simp
  with a b have "G p * G p = 0" and "(\<Sum>q\<leftarrow>z. G q * G q) = 0" by linarith+
  then show ?case using Cons.IH by simp
qed

lemma cauchy_schwarz_list:
  fixes F G :: "'a \<Rightarrow> real"
  shows "(\<Sum>p\<leftarrow>z. F p * G p) * (\<Sum>p\<leftarrow>z. F p * G p)
         \<le> (\<Sum>p\<leftarrow>z. F p * F p) * (\<Sum>p\<leftarrow>z. G p * G p)"
proof -
  define A where "A = (\<Sum>p\<leftarrow>z. F p * F p)"
  define B where "B = (\<Sum>p\<leftarrow>z. G p * G p)"
  define C where "C = (\<Sum>p\<leftarrow>z. F p * G p)"
  have B0: "0 \<le> B" unfolding B_def by (rule sum_sq_nonneg)
  have "0 \<le> (\<Sum>p\<leftarrow>z. (B * F p - C * G p) * (B * F p - C * G p))"
    by (rule sum_sq_nonneg)
  also have "\<dots> = B * B * A - 2 * B * C * C + C * C * B"
    unfolding A_def B_def C_def by (rule sum_sq_expand)
  also have "\<dots> = B * (A * B - C * C)" by (simp add: algebra_simps)
  finally have nn: "0 \<le> B * (A * B - C * C)" .
  show ?thesis
  proof (cases "B = 0")
    case True
    then have "C = 0" unfolding B_def C_def by (rule sum_sq_zero_cross)
    with True show ?thesis unfolding A_def[symmetric] B_def[symmetric] C_def[symmetric] by simp
  next
    case False
    with B0 have "0 < B" by simp
    with nn have "0 \<le> A * B - C * C" by (simp add: zero_le_mult_iff)
    then show ?thesis unfolding A_def[symmetric] B_def[symmetric] C_def[symmetric] by simp
  qed
qed

lemma variance_sum:
  "variance xs = (\<Sum>x\<leftarrow>xs. (x - mean xs) * (x - mean xs)) / real (length xs)"
  by (simp add: variance_def covariance_def zip_same_conv_map comp_def)

lemma sum_zip_fst:
  fixes h :: "'a \<Rightarrow> real"
  shows "length xs = length ys \<Longrightarrow> (\<Sum>(x, y)\<leftarrow>zip xs ys. h x) = (\<Sum>x\<leftarrow>xs. h x)"
  by (induction xs ys rule: list_induct2) simp_all

lemma sum_zip_snd:
  fixes h :: "'b \<Rightarrow> real"
  shows "length xs = length ys \<Longrightarrow> (\<Sum>(x, y)\<leftarrow>zip xs ys. h y) = (\<Sum>y\<leftarrow>ys. h y)"
  by (induction xs ys rule: list_induct2) simp_all

lemma variance_nonneg: "0 \<le> variance xs"
  unfolding variance_sum by (simp add: sum_sq_nonneg)

lemma covariance_sq_le:
  assumes len: "length xs = length ys"
  shows "covariance xs ys * covariance xs ys \<le> variance xs * variance ys"
proof -
  define n where "n = real (length xs)"
  define F where "F = (\<lambda>p :: real \<times> real. fst p - mean xs)"
  define G where "G = (\<lambda>p :: real \<times> real. snd p - mean ys)"
  define z where "z = zip xs ys"
  have c: "covariance xs ys = (\<Sum>p\<leftarrow>z. F p * G p) / n"
    by (simp add: covariance_def F_def G_def z_def n_def case_prod_unfold)
  have "(\<Sum>p\<leftarrow>z. F p * F p) = (\<Sum>(x, y)\<leftarrow>zip xs ys. (x - mean xs) * (x - mean xs))"
    by (simp add: F_def z_def case_prod_unfold)
  also have "\<dots> = (\<Sum>x\<leftarrow>xs. (x - mean xs) * (x - mean xs))"
    using len by (rule sum_zip_fst)
  finally have vx: "variance xs = (\<Sum>p\<leftarrow>z. F p * F p) / n"
    by (simp add: variance_sum n_def)
  have "(\<Sum>p\<leftarrow>z. G p * G p) = (\<Sum>(x, y)\<leftarrow>zip xs ys. (y - mean ys) * (y - mean ys))"
    by (simp add: G_def z_def case_prod_unfold)
  also have "\<dots> = (\<Sum>y\<leftarrow>ys. (y - mean ys) * (y - mean ys))"
    using len by (rule sum_zip_snd)
  finally have vy: "variance ys = (\<Sum>p\<leftarrow>z. G p * G p) / n"
    by (simp add: variance_sum n_def len)
  have "(\<Sum>p\<leftarrow>z. F p * G p) * (\<Sum>p\<leftarrow>z. F p * G p) / (n * n)
        \<le> (\<Sum>p\<leftarrow>z. F p * F p) * (\<Sum>p\<leftarrow>z. G p * G p) / (n * n)"
    by (rule divide_right_mono [OF cauchy_schwarz_list]) simp
  then show ?thesis by (simp add: c vx vy)
qed

lemma pearson_bounds:
  assumes "pearson xs ys = Some r"
  shows "\<bar>r\<bar> \<le> 1"
proof -
  from assms have len: "length xs = length ys"
    and vx: "variance xs \<noteq> 0" and vy: "variance ys \<noteq> 0"
    and r: "r = covariance xs ys / (stdev xs * stdev ys)"
    by (auto simp: pearson_def split: if_splits)
  have px: "0 < variance xs" using vx variance_nonneg [of xs] by simp
  have py: "0 < variance ys" using vy variance_nonneg [of ys] by simp
  have den: "stdev xs * stdev ys = sqrt (variance xs * variance ys)"
    by (simp add: stdev_def real_sqrt_mult)
  have pos: "0 < sqrt (variance xs * variance ys)" using px py by simp
  have "\<bar>covariance xs ys\<bar> = sqrt (covariance xs ys * covariance xs ys)" by simp
  also have "\<dots> \<le> sqrt (variance xs * variance ys)"
    using covariance_sq_le [OF len] by (simp only: real_sqrt_le_iff)
  finally have "\<bar>covariance xs ys\<bar> \<le> sqrt (variance xs * variance ys)" .
  with pos show ?thesis by (simp add: r den)
qed

text \<open>A lower bound on a positive correlation, free of square roots.\<close>

lemma pearson_greater:
  assumes "length xs = length ys" "xs \<noteq> []"
    and "0 < variance xs" "0 < variance ys"
    and "0 \<le> t" "0 < covariance xs ys"
    and "t * t * (variance xs * variance ys) < covariance xs ys * covariance xs ys"
  shows "\<exists>r. pearson xs ys = Some r \<and> t < r"
proof -
  let ?d = "sqrt (variance xs * variance ys)"
  have d: "stdev xs * stdev ys = ?d" by (simp add: stdev_def real_sqrt_mult)
  have dpos: "0 < ?d" using assms(3,4) by simp
  have "t * ?d = sqrt (t * t * (variance xs * variance ys))"
    using assms(5) by (simp add: real_sqrt_mult)
  also have "\<dots> < sqrt (covariance xs ys * covariance xs ys)"
    using assms(7) by (simp only: real_sqrt_less_iff)
  also have "\<dots> = covariance xs ys" using assms(6) by simp
  finally have "t < covariance xs ys / ?d" using dpos by (simp add: pos_less_divide_eq)
  moreover have "pearson xs ys = Some (covariance xs ys / ?d)"
    using assms(1-4) by (simp add: pearson_def d)
  ultimately show ?thesis by simp
qed

lemma six_days_corr:
  "\<exists>r. pearson (map sleep_hours (body six_days)) (map focus (mind six_days)) = Some r \<and> 9/10 < r"
  by (rule pearson_greater)
     (simp_all add: six_days_def example_body_def example_mind_def variance_def covariance_def mean_def)

lemma debt_days_corr:
  "\<exists>r. pearson (map debts (finance debt_days)) (map anxiety (mind debt_days)) = Some r \<and> 3/10 < r"
  by (rule pearson_greater)
     (simp_all add: debt_days_def example_finance_def example_mind_def variance_def covariance_def mean_def)

text \<open>
  Claim C8. For series of equal length, \<open>pearson\<close> returns a value in [-1, 1] or is
  undefined (\<open>None\<close>); whenever it returns a value the divisor is not zero, and whenever
  either series has zero variance it is undefined. It returns 1 for [1,2,3] with
  [1,2,3], -1 for [1,2,3] with [3,2,1], and is undefined for [1,1,1] with [1,2,3].
  The function is the model of the spec's description, its source being absent.
\<close>

theorem C8_pearson:
  "(pearson xs ys = Some r \<longrightarrow> - 1 \<le> r \<and> r \<le> 1 \<and> stdev xs * stdev ys \<noteq> 0)
   \<and> (variance xs = 0 \<or> variance ys = 0 \<longrightarrow> pearson xs ys = None)
   \<and> pearson [1, 2, 3] [1, 2, 3] = Some 1
   \<and> pearson [1, 2, 3] [3, 2, 1] = Some (- 1)
   \<and> variance [1, 1, 1] = 0
   \<and> pearson [1, 1, 1] [1, 2, 3] = None"
proof -
  have a: "pearson xs ys = Some r \<longrightarrow> - 1 \<le> r \<and> r \<le> 1 \<and> stdev xs * stdev ys \<noteq> 0"
  proof
    assume s: "pearson xs ys = Some r"
    then have "\<bar>r\<bar> \<le> 1" by (rule pearson_bounds)
    moreover from s have "stdev xs * stdev ys \<noteq> 0"
      by (auto simp: pearson_def stdev_def split: if_splits)
    ultimately show "- 1 \<le> r \<and> r \<le> 1 \<and> stdev xs * stdev ys \<noteq> 0" by auto
  qed
  have b: "variance xs = 0 \<or> variance ys = 0 \<longrightarrow> pearson xs ys = None"
    by (simp add: pearson_def)
  have c: "pearson [1, 2, 3] [1, 2, 3] = Some 1"
    by (simp add: pearson_def variance_def covariance_def stdev_def mean_def)
  have d: "pearson [1, 2, 3] [3, 2, 1] = Some (- 1)"
    by (simp add: pearson_def variance_def covariance_def stdev_def mean_def)
  have e: "variance [1, 1, 1] = 0"
    by (simp add: variance_def covariance_def mean_def)
  have f: "pearson [1, 1, 1] [1, 2, 3] = None"
    by (simp add: pearson_def variance_def covariance_def stdev_def mean_def)
  from a b c d e f show ?thesis by blast
qed

theorem C8_pearson_witness:
  "pearson [1, 2, 3] [1, 2, 3] = Some 1 \<and> - 1 \<le> (1::real) \<and> (1::real) \<le> 1
   \<and> stdev [1, 2, 3] * stdev [1, 2, 3] \<noteq> 0
   \<and> variance [1, 1, 1] = 0 \<and> pearson [1, 1, 1] [1, 2, 3] = None"
  using C8_pearson [of "[1, 2, 3]" "[1, 2, 3]" 1] C8_pearson [of "[1, 1, 1]" "[1, 2, 3]"]
  by simp

section \<open>Scores\<close>




text \<open>
  Claim C7. When the list of per-date discipline aggregates is not empty, the
  discipline score is \<^verbatim>\<open>min(100, round(total_minutes / 2.4))\<close> of its first entry (the
  most recent date, the server sending the aggregates by date descending): 240, 120
  and 0 minutes give 100, 50 and 0. Without discipline data the score is 0.
\<close>

theorem C7_discipline_score:
  "(discipline data = d # ds \<longrightarrow>
      disciplineScore data = min 100 (round (total_minutes d / 2.4))
      \<and> (total_minutes d = 240 \<longrightarrow> disciplineScore data = 100)
      \<and> (total_minutes d = 120 \<longrightarrow> disciplineScore data = 50)
      \<and> (total_minutes d = 0 \<longrightarrow> disciplineScore data = 0))
   \<and> (discipline data = [] \<longrightarrow> disciplineScore data = 0)"
  by (auto simp: disciplineScore_def)

theorem C7_discipline_score_witness:
  "disciplineScore (minutes_day 240) = 100 \<and> disciplineScore (minutes_day 120) = 50
   \<and> disciplineScore (minutes_day 0) = 0 \<and> disciplineScore no_logs = 0"
  using C7_discipline_score [of "minutes_day 240" "hd (discipline (minutes_day 240))" "[]"]
    C7_discipline_score [of "minutes_day 120" "hd (discipline (minutes_day 120))" "[]"]
    C7_discipline_score [of "minutes_day 0" "hd (discipline (minutes_day 0))" "[]"]
    C7_discipline_score [of no_logs]
  by (simp add: minutes_day_def no_logs_def)

text \<open>
  Claim C6. When body, mind, finance and discipline are all empty, the view is the
  placeholder \<open>NoData\<close>, which carries no scores; as soon as one list has an entry the
  view is a dashboard with scores. So "nothing logged yet" cannot be taken for a
  computed score of 0.
\<close>

theorem C6_empty_state:
  "(body data = [] \<and> mind data = [] \<and> finance data = [] \<and> discipline data = [] \<longrightarrow>
      DashboardView calcScore getCorr (Some data) = NoData)
   \<and> (\<not> (body data = [] \<and> mind data = [] \<and> finance data = [] \<and> discipline data = []) \<longrightarrow>
      (\<exists>sc ins. DashboardView calcScore getCorr (Some data) = Dashboard sc ins))"
  by (auto simp: DashboardView_def hasData_def)

theorem C6_empty_state_witness:
  "DashboardView calculateScore pearson (Some no_logs) = NoData
   \<and> (\<exists>sc ins. DashboardView calculateScore pearson (Some (minutes_day 0)) = Dashboard sc ins)"
  using C6_empty_state [of no_logs calculateScore pearson]
    C6_empty_state [of "minutes_day 0" calculateScore pearson]
  by (simp add: no_logs_def minutes_day_def)

section \<open>Insights\<close>

lemma titles_differ: "focus_title \<noteq> debt_title"
  by (simp add: focus_title_def debt_title_def)

text \<open>Each rule emits at most one insight; what it emits, and when.\<close>

lemma sleepFocusInsight_eq:
  "sleepFocusInsight getCorr data =
     (if 5 < length (body data) \<and> 5 < length (discipline data)
         \<and> (\<exists>corr. getCorr (map sleep_hours (body data)) (map focus (mind data)) = Some corr
                     \<and> 0.4 < \<bar>corr\<bar>)
      then [\<lparr>insight_title = focus_title,
             insight_text = focus_text (round (the (getCorr (map sleep_hours (body data)) (map focus (mind data))) * 100)),
             insight_type = (if 0 < the (getCorr (map sleep_hours (body data)) (map focus (mind data))) then Positive else Negative)\<rparr>]
      else [])"
  by (auto simp: sleepFocusInsight_def split: option.splits)

lemma sleepFocusInsight_title:
  "i \<in> set (sleepFocusInsight getCorr data) \<Longrightarrow> insight_title i = focus_title"
  by (simp add: sleepFocusInsight_eq split: if_split_asm)

lemma debtAnxietyInsight_eq:
  "debtAnxietyInsight getCorr data =
     (if 5 < length (finance data) \<and> 5 < length (mind data)
         \<and> (\<exists>corr. getCorr (map debts (finance data)) (map anxiety (mind data)) = Some corr
                     \<and> 0.3 < corr)
      then [\<lparr>insight_title = debt_title, insight_text = debt_text, insight_type = Negative\<rparr>]
      else [])"
  by (auto simp: debtAnxietyInsight_def split: option.splits)

lemma hasData_finance: "5 < length (finance data) \<Longrightarrow> hasData data"
  by (auto simp: hasData_def)

text \<open>
  Claim C9. With more than five finance logs and more than five mind logs the
  dashboard is rendered with the insights of the two rules, and among them there is a
  Debt-Anxiety insight (title \<open>debt_title\<close>) if and only if the correlation of the
  debts series with the anxiety series is defined and above 0.3; a correlation that is
  negative, zero or undefined emits none. Every insight with that title is the
  Debt-Anxiety insight, of type \<open>Negative\<close>. This holds for every implementation
  \<open>getCorr\<close> of the correlation.
\<close>

theorem C9_debt_anxiety:
  assumes "5 < length (finance data)" and "5 < length (mind data)"
  shows "(\<exists>sc. DashboardView calcScore getCorr (Some data) = Dashboard sc (insights getCorr data))
     \<and> ((\<exists>i \<in> set (insights getCorr data). insight_title i = debt_title)
          \<longleftrightarrow> (\<exists>corr. getCorr (map debts (finance data)) (map anxiety (mind data)) = Some corr
                       \<and> 0.3 < corr))
     \<and> (\<forall>i \<in> set (insights getCorr data).
           insight_title i = debt_title \<longrightarrow>
           i = \<lparr>insight_title = debt_title, insight_text = debt_text, insight_type = Negative\<rparr>)"
proof -
  have "hasData data" using assms(1) by (simp add: hasData_finance)
  then have v: "\<exists>sc. DashboardView calcScore getCorr (Some data) = Dashboard sc (insights getCorr data)"
    by (simp add: DashboardView_def)
  have t: "\<And>i. i \<in> set (sleepFocusInsight getCorr data) \<Longrightarrow> insight_title i \<noteq> debt_title"
    using sleepFocusInsight_title titles_differ by metis
  have m: "(\<exists>i \<in> set (insights getCorr data). insight_title i = debt_title)
          \<longleftrightarrow> (\<exists>corr. getCorr (map debts (finance data)) (map anxiety (mind data)) = Some corr
                       \<and> 0.3 < corr)"
    using assms t by (auto simp: insights_def debtAnxietyInsight_eq)
  have n: "\<forall>i \<in> set (insights getCorr data).
           insight_title i = debt_title \<longrightarrow>
           i = \<lparr>insight_title = debt_title, insight_text = debt_text, insight_type = Negative\<rparr>"
    using t by (auto simp: insights_def debtAnxietyInsight_eq)
  from v m n show ?thesis by blast
qed

theorem C9_debt_anxiety_witness:
  "5 < length (finance debt_days) \<and> 5 < length (mind debt_days)
   \<and> (\<exists>i \<in> set (insights pearson debt_days). insight_title i = debt_title)
   \<and> insights pearson debt_days
       = [\<lparr>insight_title = debt_title, insight_text = debt_text, insight_type = Negative\<rparr>]"
proof -
  have l: "5 < length (finance debt_days)" "5 < length (mind debt_days)"
    by (simp_all add: debt_days_def)
  obtain r where r: "pearson (map debts (finance debt_days)) (map anxiety (mind debt_days)) = Some r"
    and gt: "0.3 < r"
    using debt_days_corr by auto
  have fires: "\<exists>i \<in> set (insights pearson debt_days). insight_title i = debt_title"
    using C9_debt_anxiety [OF l, of calculateScore pearson] r gt by blast
  have s: "sleepFocusInsight pearson debt_days = []"
    by (simp add: sleepFocusInsight_def debt_days_def)
  have d: "debtAnxietyInsight pearson debt_days
       = [\<lparr>insight_title = debt_title, insight_text = debt_text, insight_type = Negative\<rparr>]"
    using l r gt by (simp add: debtAnxietyInsight_def)
  show ?thesis using l fires s d by (simp add: insights_def)
qed

text \<open>The guard in general: without more than five discipline days the rule is silent.\<close>

lemma sleepFocusInsight_guard:
  "length (discipline data) \<le> 5 \<Longrightarrow> sleepFocusInsight getCorr data = []"
  by (simp add: sleepFocusInsight_def)

text \<open>
  Claim C1. With more than five body logs and more than five mind logs the
  Sleep-Focus rule is to emit an insight exactly when the correlation of sleep_hours
  with focus exceeds 0.4 in absolute value; for six days of strictly increasing
  sleep_hours with matching increasing focus, and no other data, the insight is to
  fire with positive polarity and a percentage of at least 40. The dataset
  \<open>six_days\<close> is such an input: six body logs, six mind logs, no finance and no
  discipline data, and a correlation above 0.9, so \<open>round (corr * 100)\<close> is at least
  40. The code renders the dashboard with no insight at all: the guard of the rule
  reads the length of \<^verbatim>\<open>data.discipline\<close>, not of \<^verbatim>\<open>data.mind\<close>.
\<close>

theorem C1_sleep_focus_six_days:
  "5 < length (body six_days) \<and> 5 < length (mind six_days)
   \<and> finance six_days = [] \<and> discipline six_days = []
   \<and> (case pearson (map sleep_hours (body six_days)) (map focus (mind six_days)) of
         None \<Rightarrow> False
       | Some corr \<Rightarrow> 0.4 < \<bar>corr\<bar> \<and> 0 < corr \<and> 40 \<le> round (corr * 100))
   \<and> (\<exists>sc. DashboardView calcScore getCorr (Some six_days) = Dashboard sc [])"
proof -
  obtain r where r: "pearson (map sleep_hours (body six_days)) (map focus (mind six_days)) = Some r"
    and gt: "9/10 < r"
    using six_days_corr by blast
  have "90 < r * 100" using gt by simp
  then have "40 \<le> round (r * 100)" unfolding round_def by linarith
  moreover have "insights getCorr six_days = []"
    by (simp add: insights_def sleepFocusInsight_def debtAnxietyInsight_def six_days_def)
  moreover have "hasData six_days" by (simp add: hasData_def six_days_def)
  ultimately show ?thesis using r gt
    by (simp add: DashboardView_def) (simp add: six_days_def)
qed

section \<open>Properties of the write routes\<close>

subsection \<open>Statements and tables\<close>









lemma length_update_first [simp]: "length (update_first c u rs) = length rs"
  by (induction rs) auto












subsection \<open>What each route writes\<close>







subsection \<open>The invariants hold in every reachable database\<close>















subsection \<open>A second write for the same date\<close>




subsection \<open>The routes at the example requests\<close>












section \<open>Upserts, references and validation\<close>











end
